theory Spec2Isabelle
  imports Complex_Main
begin

section \<open>JavaScript numbers\<close>

text \<open>
  Every number of \<^verbatim>\<open>script.js\<close> is a JavaScript Number. The model keeps the three
  special values apart from the finite ones, so that a comparison with \<^verbatim>\<open>NaN\<close> is false
  and \<^verbatim>\<open>parseFloat\<close> can return something that is not a number. Finite values are
  idealised: they are real numbers, arithmetic on them is exact (no rounding, no overflow
  to infinity) and zero has no sign (a division by zero reads its divisor as \<^verbatim>\<open>+0\<close>).
  The rounding of doubles is written out where a property depends on it, see below.
\<close>

datatype jsnum = Finite real | PosInfinity | NegInfinity | NaN

instantiation jsnum :: "{uminus, plus, minus, times, divide, inverse, abs, ord}"
begin

fun uminus_jsnum :: "jsnum \<Rightarrow> jsnum" where
  "uminus_jsnum (Finite a) = Finite (- a)"
| "uminus_jsnum PosInfinity = NegInfinity"
| "uminus_jsnum NegInfinity = PosInfinity"
| "uminus_jsnum NaN = NaN"

fun plus_jsnum :: "jsnum \<Rightarrow> jsnum \<Rightarrow> jsnum" where
  "plus_jsnum NaN b = NaN"
| "plus_jsnum a NaN = NaN"
| "plus_jsnum (Finite a) (Finite b) = Finite (a + b)"
| "plus_jsnum (Finite a) b = b"
| "plus_jsnum a (Finite b) = a"
| "plus_jsnum PosInfinity PosInfinity = PosInfinity"
| "plus_jsnum NegInfinity NegInfinity = NegInfinity"
| "plus_jsnum PosInfinity NegInfinity = NaN"
| "plus_jsnum NegInfinity PosInfinity = NaN"

definition minus_jsnum :: "jsnum \<Rightarrow> jsnum \<Rightarrow> jsnum" where
  "minus_jsnum a b = a + (- b)"

text \<open>The sign of a number: \<open>1\<close>, \<open>-1\<close>, or \<open>0\<close> for zero. It is not used on \<^verbatim>\<open>NaN\<close>.\<close>

fun sign_of :: "jsnum \<Rightarrow> int" where
  "sign_of (Finite a) = (if a = 0 then 0 else if 0 < a then 1 else - 1)"
| "sign_of PosInfinity = 1"
| "sign_of NegInfinity = - 1"
| "sign_of NaN = 0"

definition signed_infinity :: "int \<Rightarrow> jsnum" where
  "signed_infinity s = (if s = 0 then NaN else if 0 < s then PosInfinity else NegInfinity)"

fun times_jsnum :: "jsnum \<Rightarrow> jsnum \<Rightarrow> jsnum" where
  "times_jsnum NaN b = NaN"
| "times_jsnum a NaN = NaN"
| "times_jsnum (Finite a) (Finite b) = Finite (a * b)"
| "times_jsnum a b = signed_infinity (sign_of a * sign_of b)"

fun divide_jsnum :: "jsnum \<Rightarrow> jsnum \<Rightarrow> jsnum" where
  "divide_jsnum NaN b = NaN"
| "divide_jsnum a NaN = NaN"
| "divide_jsnum (Finite a) (Finite b) =
     (if b = 0 then signed_infinity (sign_of (Finite a)) else Finite (a / b))"
| "divide_jsnum (Finite a) b = Finite 0"
| "divide_jsnum a (Finite b) =
     (if b < 0 then signed_infinity (- sign_of a) else signed_infinity (sign_of a))"
| "divide_jsnum a b = NaN"

definition inverse_jsnum :: "jsnum \<Rightarrow> jsnum" where
  "inverse_jsnum a = divide (Finite 1) a"

fun abs_jsnum :: "jsnum \<Rightarrow> jsnum" where
  "abs_jsnum (Finite a) = Finite \<bar>a\<bar>"
| "abs_jsnum PosInfinity = PosInfinity"
| "abs_jsnum NegInfinity = PosInfinity"
| "abs_jsnum NaN = NaN"

fun less_jsnum :: "jsnum \<Rightarrow> jsnum \<Rightarrow> bool" where
  "less_jsnum NaN b = False"
| "less_jsnum a NaN = False"
| "less_jsnum (Finite a) (Finite b) = (a < b)"
| "less_jsnum a PosInfinity = (a \<noteq> PosInfinity)"
| "less_jsnum NegInfinity b = (b \<noteq> NegInfinity)"
| "less_jsnum a b = False"

fun less_eq_jsnum :: "jsnum \<Rightarrow> jsnum \<Rightarrow> bool" where
  "less_eq_jsnum NaN b = False"
| "less_eq_jsnum a NaN = False"
| "less_eq_jsnum (Finite a) (Finite b) = (a \<le> b)"
| "less_eq_jsnum a PosInfinity = True"
| "less_eq_jsnum NegInfinity b = True"
| "less_eq_jsnum a b = False"

instance ..

end

text \<open>\<^verbatim>\<open>Math.abs\<close> is \<open>abs\<close> above. \<^verbatim>\<open>Math.max\<close> answers \<^verbatim>\<open>NaN\<close> as soon as one argument is.\<close>

fun Math_max :: "jsnum \<Rightarrow> jsnum \<Rightarrow> jsnum" where
  "Math_max NaN b = NaN"
| "Math_max a NaN = NaN"
| "Math_max a b = (if a < b then b else a)"

fun Math_sqrt :: "jsnum \<Rightarrow> jsnum" where
  "Math_sqrt (Finite a) = (if a < 0 then NaN else Finite (sqrt a))"
| "Math_sqrt PosInfinity = PosInfinity"
| "Math_sqrt NegInfinity = NaN"
| "Math_sqrt NaN = NaN"

fun Math_cos :: "jsnum \<Rightarrow> jsnum" where
  "Math_cos (Finite a) = Finite (cos a)"
| "Math_cos a = NaN"

fun Math_sin :: "jsnum \<Rightarrow> jsnum" where
  "Math_sin (Finite a) = Finite (sin a)"
| "Math_sin a = NaN"

text \<open>The operator \<^verbatim>\<open>a || b\<close> on numbers: \<open>0\<close> and \<^verbatim>\<open>NaN\<close> are falsy.\<close>

definition js_or :: "jsnum \<Rightarrow> jsnum \<Rightarrow> jsnum" where
  "js_or a b = (if a = Finite 0 \<or> a = NaN then b else a)"

subsection \<open>Rounding to a double\<close>

text \<open>
  Where a property depends on the rounding of the arithmetic, the operation is given a
  rounding \<open>rd\<close>, applied to every finite result: \<open>Finite\<close> is the exact arithmetic
  above, \<open>binary64\<close> is IEEE 754 double precision with round-to-nearest, ties to even.
  \<open>binary64 r\<close> takes the exponent \<open>e\<close> of \<open>r\<close> (at least \<open>-1022\<close>, below which doubles
  are subnormal), rounds \<open>r\<close> to a multiple of \<open>2\<^sup>e\<^sup>-\<^sup>5\<^sup>2\<close> and overflows to an infinity from
  \<open>2\<^sup>1\<^sup>0\<^sup>2\<^sup>4\<close> on.
\<close>

definition round_half_even :: "real \<Rightarrow> int" where
  "round_half_even x =
     (let f = \<lfloor>x\<rfloor>; d = x - of_int f
      in if d < 1 / 2 then f else if 1 / 2 < d then f + 1 else if even f then f else f + 1)"

definition pow2 :: "int \<Rightarrow> real" where
  "pow2 e = (if 0 \<le> e then 2 ^ nat e else 1 / 2 ^ nat (- e))"

definition binary64 :: "real \<Rightarrow> jsnum" where
  "binary64 r =
     (if r = 0 then Finite 0
      else (let e = max \<lfloor>log 2 \<bar>r\<bar>\<rfloor> (- 1022);
                u = pow2 (e - 52);
                q = u * of_int (round_half_even (r / u))
            in if 2 ^ 1024 \<le> \<bar>q\<bar> then (if 0 < r then PosInfinity else NegInfinity)
               else Finite q))"

fun round_to :: "(real \<Rightarrow> jsnum) \<Rightarrow> jsnum \<Rightarrow> jsnum" where
  "round_to rd (Finite r) = rd r"
| "round_to rd a = a"

section \<open>Vectors and meshes of the rendering library\<close>

text \<open>
  \<^verbatim>\<open>THREE.Vector3\<close> belongs to the rendering library, not to the repository. Its methods
  are modelled by what the library documents: \<^verbatim>\<open>lengthSq\<close> is \<open>x\<^sup>2 + y\<^sup>2 + z\<^sup>2\<close>,
  \<^verbatim>\<open>normalize()\<close> is \<^verbatim>\<open>divideScalar(length() || 1)\<close> and \<^verbatim>\<open>divideScalar(s)\<close> is
  \<^verbatim>\<open>multiplyScalar(1 / s)\<close>. The components are called \<open>xc\<close>, \<open>yc\<close>, \<open>zc\<close> for the
  source's \<^verbatim>\<open>x\<close>, \<^verbatim>\<open>y\<close>, \<^verbatim>\<open>z\<close>. A method that mutates its receiver returns the new
  vector; \<^verbatim>\<open>clone()\<close> is the identity on values. \<open>length_v\<close> and \<open>normalize_v\<close>
  are \<^verbatim>\<open>length\<close> and \<^verbatim>\<open>normalize\<close>.
\<close>

record Vector3 =
  xc :: jsnum
  yc :: jsnum
  zc :: jsnum

definition lengthSq :: "Vector3 \<Rightarrow> jsnum" where
  "lengthSq v = xc v * xc v + yc v * yc v + zc v * zc v"

definition length_v :: "Vector3 \<Rightarrow> jsnum" where
  "length_v v = Math_sqrt (lengthSq v)"

definition multiplyScalar :: "Vector3 \<Rightarrow> jsnum \<Rightarrow> Vector3" where
  "multiplyScalar v s = \<lparr>xc = xc v * s, yc = yc v * s, zc = zc v * s\<rparr>"

definition divideScalar :: "Vector3 \<Rightarrow> jsnum \<Rightarrow> Vector3" where
  "divideScalar v s = multiplyScalar v (Finite 1 / s)"

definition normalize_v :: "Vector3 \<Rightarrow> Vector3" where
  "normalize_v v = divideScalar v (js_or (length_v v) (Finite 1))"

definition negate :: "Vector3 \<Rightarrow> Vector3" where
  "negate v = \<lparr>xc = - xc v, yc = - yc v, zc = - zc v\<rparr>"

definition add :: "Vector3 \<Rightarrow> Vector3 \<Rightarrow> Vector3" where
  "add v w = \<lparr>xc = xc v + xc w, yc = yc v + yc w, zc = zc v + zc w\<rparr>"

text \<open>
  Of a \<^verbatim>\<open>THREE.Mesh\<close> the program reads and writes the position and the \<^verbatim>\<open>visible\<close>
  flag (true on a new mesh). Geometry, material, shadows and the scene graph are
  rendering only and are left out.
\<close>

record Mesh =
  mesh_position :: Vector3
  visible :: bool

section \<open>Droplet3D\<close>

record Droplet3D =
  position :: Vector3
  velocity :: Vector3
  mass :: jsnum
  radius :: jsnum
  mesh :: Mesh
  isDead :: bool
  lastBounceTime :: jsnum

text \<open>\<^verbatim>\<open>createMesh\<close>: a sphere at the droplet's position.\<close>

definition createMesh :: "Vector3 \<Rightarrow> Mesh" where
  "createMesh p = \<lparr>mesh_position = p, visible = True\<rparr>"

text \<open>The constructor \<^verbatim>\<open>new Droplet3D(x, y, z, mass, size, scene)\<close>; \<open>sz\<close> is its \<^verbatim>\<open>size\<close>.\<close>

definition new_Droplet3D :: "jsnum \<Rightarrow> jsnum \<Rightarrow> jsnum \<Rightarrow> jsnum \<Rightarrow> jsnum \<Rightarrow> Droplet3D" where
  "new_Droplet3D x y z m sz =
     \<lparr>position = \<lparr>xc = x, yc = y, zc = z\<rparr>,
      velocity = \<lparr>xc = Finite 0, yc = Finite 0, zc = Finite 0\<rparr>,
      mass = m,
      radius = sz * Finite 0.1,
      mesh = createMesh \<lparr>xc = x, yc = y, zc = z\<rparr>,
      isDead = False,
      lastBounceTime = Finite 0\<rparr>"

text \<open>
  \<^verbatim>\<open>handleSurfaceCollision(surfaceY, surfaceVelY, time)\<close>. The source's
  \<^verbatim>\<open>surfaceVelY > -2\<close> is \<open>Finite (- 2) < surfaceVelY\<close>.
\<close>

definition bounceThreshold :: jsnum where
  "bounceThreshold = Finite 25.0"

definition handleSurfaceCollision :: "Droplet3D \<Rightarrow> jsnum \<Rightarrow> jsnum \<Rightarrow> jsnum \<Rightarrow> Droplet3D" where
  "handleSurfaceCollision d surfaceY surfaceVelY time =
     (let relativeVelY = yc (velocity d) - surfaceVelY in
      if relativeVelY < Finite 0 then
        (let impactSpeed = \<bar>relativeVelY\<bar> in
         if impactSpeed < bounceThreshold \<and> Finite (- 2) < surfaceVelY then
           d\<lparr>velocity := (velocity d)\<lparr>yc :=
                \<bar>yc (velocity d)\<bar> * Finite 0.8 + Math_max (Finite 0) (surfaceVelY * Finite 0.5)\<rparr>,
             position := (position d)\<lparr>yc := surfaceY + radius d\<rparr>\<rparr>
         else d\<lparr>isDead := True\<rparr>)
      else d)"

text \<open>
  The same method with the rounding of its arithmetic written out: the difference, the two
  products and the two sums are rounded by \<open>rd\<close>, and the literal \<^verbatim>\<open>0.8\<close> is the number
  \<open>rd 0.8\<close> (the other literals, \<open>25\<close>, \<open>-2\<close>, \<open>0\<close> and \<open>0.5\<close>, are doubles as they
  stand). With \<open>rd = Finite\<close> it is \<open>handleSurfaceCollision\<close>; with \<open>rd = binary64\<close> it is
  the method as JavaScript computes it.
\<close>

definition handleSurfaceCollision_fl ::
  "(real \<Rightarrow> jsnum) \<Rightarrow> Droplet3D \<Rightarrow> jsnum \<Rightarrow> jsnum \<Rightarrow> jsnum \<Rightarrow> Droplet3D" where
  "handleSurfaceCollision_fl rd d surfaceY surfaceVelY time =
     (let relativeVelY = round_to rd (yc (velocity d) - surfaceVelY) in
      if relativeVelY < Finite 0 then
        (let impactSpeed = \<bar>relativeVelY\<bar> in
         if impactSpeed < bounceThreshold \<and> Finite (- 2) < surfaceVelY then
           d\<lparr>velocity := (velocity d)\<lparr>yc :=
                round_to rd
                  (round_to rd (\<bar>yc (velocity d)\<bar> * rd 0.8)
                   + Math_max (Finite 0) (round_to rd (surfaceVelY * Finite 0.5)))\<rparr>,
             position := (position d)\<lparr>yc := round_to rd (surfaceY + radius d)\<rparr>\<rparr>
         else d\<lparr>isDead := True\<rparr>)
      else d)"

text \<open>
  \<^verbatim>\<open>update(deltaTime, gravity, airResistance, surfaceY, surfaceVelY, time)\<close>. The source's
  \<^verbatim>\<open>-this.mass * gravity\<close> negates the mass first; \<^verbatim>\<open>speedSq > 0.0001\<close> is
  \<open>Finite 0.0001 < speedSq\<close>.
\<close>

definition update ::
  "Droplet3D \<Rightarrow> jsnum \<Rightarrow> jsnum \<Rightarrow> jsnum \<Rightarrow> jsnum \<Rightarrow> jsnum \<Rightarrow> jsnum \<Rightarrow> Droplet3D" where
  "update d deltaTime gravity airResistance surfaceY surfaceVelY time =
     (let gravityForce0 = \<lparr>xc = Finite 0, yc = (- mass d) * gravity, zc = Finite 0\<rparr>;
          speedSq = lengthSq (velocity d);
          gravityForce =
            (if Finite 0.0001 < speedSq then
               (let dragMag = airResistance * speedSq;
                    dragDir = negate (normalize_v (velocity d))
                in add gravityForce0 (multiplyScalar dragDir dragMag))
             else gravityForce0);
          acceleration = divideScalar gravityForce (mass d);
          velocity1 = add (velocity d) (multiplyScalar acceleration deltaTime);
          position1 = add (position d) (multiplyScalar velocity1 (deltaTime * Finite 10));
          d1 = d\<lparr>velocity := velocity1, position := position1\<rparr>;
          d2 = (if yc (position d1) - radius d1 \<le> surfaceY
                then handleSurfaceCollision d1 surfaceY surfaceVelY time else d1);
          d3 = d2\<lparr>mesh := (mesh d2)\<lparr>mesh_position := position d2\<rparr>\<rparr>
      in if yc (position d3) < Finite (- 50) then d3\<lparr>isDead := True\<rparr> else d3)"

section \<open>SimulatorAdvanced\<close>

text \<open>
  A history frame, as \<^verbatim>\<open>recordFrame\<close> builds it: per droplet a copy of the position
  (\<^verbatim>\<open>d.position.clone()\<close>), the radius and the dead flag, and the simulation time.
  The fields \<open>radius_s\<close> and \<open>droplets_s\<close> are the snapshot's \<^verbatim>\<open>radius\<close> and
  \<^verbatim>\<open>droplets\<close>.
\<close>

record DropletData =
  pos :: Vector3
  radius_s :: jsnum
  dead :: bool

record Frame =
  droplets_s :: "DropletData list"
  waterTime :: jsnum

text \<open>
  The simulator's fields. \<open>waterMesh\<close> is the vertex list of the water plane (the
  \<^verbatim>\<open>position\<close> attribute of its geometry); \<open>replayPool\<close> is \<open>None\<close> until
  \<^verbatim>\<open>renderReplay\<close> creates it. The configuration fields \<open>mass_c\<close> and
  \<open>gravity\<close>, \<open>airResistance\<close>, \<open>dropletSize\<close>, \<open>freq\<close>, \<open>amp\<close> are the
  source's \<^verbatim>\<open>this.mass\<close>, \<^verbatim>\<open>this.gravity\<close>, and so on. Of the rain timer the model
  keeps whether it runs: \<open>rainInterval\<close> is true from the \<^verbatim>\<open>setInterval\<close> of
  \<^verbatim>\<open>toggleRain\<close> to its \<^verbatim>\<open>clearInterval\<close>, and false in the constructor, where the field
  is \<^verbatim>\<open>null\<close>. The DOM (buttons, slider element, text displays), the camera and the
  renderer are left out.
\<close>

record SimulatorAdvanced =
  droplets :: "Droplet3D list"
  isRunning :: bool
  time :: jsnum
  rainMode :: bool
  rainInterval :: bool
  gravity :: jsnum
  mass_c :: jsnum
  airResistance :: jsnum
  dropletSize :: jsnum
  freq :: jsnum
  amp :: jsnum
  history :: "Frame list"
  isReplaying :: bool
  replayFrame :: jsnum
  MAX_HISTORY :: nat
  replayPool :: "Mesh list option"
  waterMesh :: "Vector3 list"

subsection \<open>The wave field\<close>

definition getWaveHeight :: "SimulatorAdvanced \<Rightarrow> jsnum \<Rightarrow> jsnum \<Rightarrow> jsnum \<Rightarrow> jsnum" where
  "getWaveHeight s x z t =
     (let k = Finite 0.2;
          omega = freq s * Finite 0.1
      in amp s * Math_cos (k * x) * Math_cos (k * z) * Math_cos (omega * t))"

definition getSurfaceVelY :: "SimulatorAdvanced \<Rightarrow> jsnum \<Rightarrow> jsnum \<Rightarrow> jsnum \<Rightarrow> jsnum" where
  "getSurfaceVelY s x z t =
     (let k = Finite 0.2;
          omega = freq s * Finite 0.1
      in (- amp s) * omega * Math_cos (k * x) * Math_cos (k * z) * Math_sin (omega * t))"

definition updateWaterSurface :: "SimulatorAdvanced \<Rightarrow> jsnum \<Rightarrow> SimulatorAdvanced" where
  "updateWaterSurface s t =
     s\<lparr>waterMesh := map (\<lambda>p. p\<lparr>yc := getWaveHeight s (xc p) (zc p) t\<rparr>) (waterMesh s)\<rparr>"

subsection \<open>Commands\<close>

text \<open>The listeners of the start and pause buttons.\<close>

definition startBtn_click :: "SimulatorAdvanced \<Rightarrow> SimulatorAdvanced" where
  "startBtn_click s = s\<lparr>isRunning := True, isReplaying := False\<rparr>"

definition pauseBtn_click :: "SimulatorAdvanced \<Rightarrow> SimulatorAdvanced" where
  "pauseBtn_click s = s\<lparr>isRunning := False\<rparr>"

text \<open>
  \<^verbatim>\<open>spawnDroplet\<close>: \<open>rx\<close> and \<open>rz\<close> are the two values \<^verbatim>\<open>Math.random()\<close> returns.
\<close>

definition spawnDroplet :: "jsnum \<Rightarrow> jsnum \<Rightarrow> SimulatorAdvanced \<Rightarrow> SimulatorAdvanced" where
  "spawnDroplet rx rz s =
     (let x = (rx - Finite 0.5) * Finite 40;
          z = (rz - Finite 0.5) * Finite 40
      in s\<lparr>droplets := droplets s @ [new_Droplet3D x (Finite 40) z (mass_c s) (dropletSize s)]\<rparr>)"

text \<open>
  \<^verbatim>\<open>toggleRain\<close> starts the timer \<^verbatim>\<open>setInterval(() => this.spawnDroplet(), 100)\<close> or
  clears it. \<open>rainInterval_tick\<close> is the timer's callback coming due: it runs
  \<^verbatim>\<open>spawnDroplet\<close> when the timer is running and does not happen otherwise. Nothing else in
  the source stops the timer; \<^verbatim>\<open>reset\<close> does so through \<^verbatim>\<open>toggleRain\<close>.
\<close>

definition toggleRain :: "SimulatorAdvanced \<Rightarrow> SimulatorAdvanced" where
  "toggleRain s =
     (let s1 = s\<lparr>rainMode := \<not> rainMode s\<rparr>
      in if rainMode s1 then s1\<lparr>isRunning := True, rainInterval := True\<rparr>
         else s1\<lparr>rainInterval := False\<rparr>)"


definition reset :: "SimulatorAdvanced \<Rightarrow> SimulatorAdvanced" where
  "reset s =
     (let s1 = s\<lparr>droplets := [], history := [], time := Finite 0,
                  isRunning := False, isReplaying := False\<rparr>
      in if rainMode s1 then toggleRain s1 else s1)"

text \<open>
  \<^verbatim>\<open>bindSlider(id, target, displayId)\<close> installs the listener
  \<^verbatim>\<open>this[target] = parseFloat(e.target.value)\<close>. The five calls name the five targets
  below; \<open>v\<close> is what \<^verbatim>\<open>parseFloat\<close> returned (\<^verbatim>\<open>NaN\<close> for a text that is no number).
\<close>

datatype target = Gravity | Mass | AirResistance | Freq | Amp

fun bindSlider :: "target \<Rightarrow> jsnum \<Rightarrow> SimulatorAdvanced \<Rightarrow> SimulatorAdvanced" where
  "bindSlider Gravity v s = s\<lparr>gravity := v\<rparr>"
| "bindSlider Mass v s = s\<lparr>mass_c := v\<rparr>"
| "bindSlider AirResistance v s = s\<lparr>airResistance := v\<rparr>"
| "bindSlider Freq v s = s\<lparr>freq := v\<rparr>"
| "bindSlider Amp v s = s\<lparr>amp := v\<rparr>"

text \<open>
  The listener of \<^verbatim>\<open>replaySlider\<close>: \<open>v\<close> is what \<^verbatim>\<open>parseInt(e.target.value)\<close>
  returned.
\<close>

definition replaySlider_input :: "jsnum \<Rightarrow> SimulatorAdvanced \<Rightarrow> SimulatorAdvanced" where
  "replaySlider_input v s = (if isReplaying s then s\<lparr>replayFrame := v\<rparr> else s)"

subsection \<open>Recording and replay\<close>

text \<open>\<^verbatim>\<open>recordFrame\<close>. \<^verbatim>\<open>shift()\<close> drops the first element (nothing on an empty array).\<close>

definition recordFrame :: "SimulatorAdvanced \<Rightarrow> SimulatorAdvanced" where
  "recordFrame s =
     (let h = (if MAX_HISTORY s < length (history s) then tl (history s) else history s);
          frame = \<lparr>droplets_s =
                     map (\<lambda>d. \<lparr>pos = position d, radius_s = radius d, dead = isDead d\<rparr>)
                       (droplets s),
                   waterTime = time s\<rparr>
      in s\<lparr>history := h @ [frame]\<rparr>)"

definition startReplay :: "SimulatorAdvanced \<Rightarrow> SimulatorAdvanced" where
  "startReplay s =
     (let s1 = s\<lparr>isReplaying := \<not> isReplaying s\<rparr>;
          s2 = s1\<lparr>isRunning := \<not> isReplaying s1\<rparr>
      in if isReplaying s2
         then s2\<lparr>replayFrame := Finite (real (length (history s2)) - 1)\<rparr>
         else s2)"

text \<open>
  The array read \<^verbatim>\<open>this.history[this.replayFrame]\<close>: an element when the number is an
  integer from \<open>0\<close> to \<open>length - 1\<close>, \<^verbatim>\<open>undefined\<close> (\<open>None\<close>) for any other number.
\<close>

fun frameAt :: "Frame list \<Rightarrow> jsnum \<Rightarrow> Frame option" where
  "frameAt h (Finite r) =
     (if of_int \<lfloor>r\<rfloor> = r \<and> 0 \<le> r \<and> r < real (length h) then Some (h ! nat \<lfloor>r\<rfloor>) else None)"
| "frameAt h n = None"

text \<open>
  The loop \<^verbatim>\<open>while (this.replayPool.length < frame.droplets.length)\<close> of
  \<^verbatim>\<open>renderReplay\<close>, which pushes the mesh of a fresh droplet.
\<close>

function ensurePool :: "Mesh list \<Rightarrow> nat \<Rightarrow> Mesh list" where
  "ensurePool pool n =
     (if length pool < n
      then ensurePool
             (pool @ [mesh (new_Droplet3D (Finite 0) (Finite 0) (Finite 0) (Finite 1) (Finite 1))]) n
      else pool)"
  by pat_completeness auto
termination
  by (relation "measure (\<lambda>(pool, n). n - length pool)") auto

definition hide :: "Mesh \<Rightarrow> Mesh" where
  "hide m = m\<lparr>visible := False\<rparr>"

definition renderReplay :: "SimulatorAdvanced \<Rightarrow> SimulatorAdvanced" where
  "renderReplay s =
     (case frameAt (history s) (replayFrame s) of
        None \<Rightarrow> s
      | Some frame \<Rightarrow>
          (let s1 = updateWaterSurface s (waterTime frame);
               s2 = s1\<lparr>droplets := map (\<lambda>d. d\<lparr>mesh := hide (mesh d)\<rparr>) (droplets s1)\<rparr>;
               pool0 = (case replayPool s2 of None \<Rightarrow> [] | Some p \<Rightarrow> p);
               pool1 = ensurePool pool0 (length (droplets_s frame));
               pool2 = map hide pool1;
               pool3 = fold (\<lambda>(i, dData) p.
                               p[i := (p ! i)\<lparr>visible := True, mesh_position := pos dData\<rparr>])
                         (zip [0 ..< length (droplets_s frame)] (droplets_s frame)) pool2
           in s2\<lparr>replayPool := Some pool3\<rparr>))"

subsection \<open>The frame loop\<close>

text \<open>
  One droplet of the loop of \<^verbatim>\<open>animate\<close>: the mesh is shown, the surface is sampled under
  the droplet, the droplet is updated.
\<close>

definition dt :: jsnum where
  "dt = Finite 0.016"

definition step_droplet :: "SimulatorAdvanced \<Rightarrow> Droplet3D \<Rightarrow> Droplet3D" where
  "step_droplet s d =
     (let d1 = d\<lparr>mesh := (mesh d)\<lparr>visible := True\<rparr>\<rparr>;
          sY = getWaveHeight s (xc (position d1)) (zc (position d1)) (time s);
          sVy = getSurfaceVelY s (xc (position d1)) (zc (position d1)) (time s)
      in update d1 dt (gravity s) (airResistance s) sY sVy (time s))"

text \<open>
  \<^verbatim>\<open>animate\<close>. The loop runs from the last droplet to the first and splices a dead
  droplet out: \<open>foldr\<close> visits the list in that order and keeps the others in place.
\<close>

definition animate :: "SimulatorAdvanced \<Rightarrow> SimulatorAdvanced" where
  "animate s =
     (let s1 =
            (if isReplaying s then renderReplay s
             else if isRunning s then
               (let s2 = s\<lparr>time := time s + dt * (freq s / Finite 30)\<rparr>;
                    s3 = updateWaterSurface s2 (time s2);
                    s4 = s3\<lparr>droplets :=
                           foldr (\<lambda>d acc. let d' = step_droplet s3 d
                                           in if isDead d' then acc else d' # acc)
                             (droplets s3) []\<rparr>
                in recordFrame s4)
             else s)
      in if \<not> isReplaying s1 \<and> replayPool s1 \<noteq> None
         then s1\<lparr>replayPool := map_option (map hide) (replayPool s1)\<rparr>
         else s1)"

text \<open>
  The constructor: the fields as it sets them (\<open>wm\<close> is the vertex list of the plane
  geometry the rendering library builds), then the first call \<^verbatim>\<open>this.animate(0)\<close>.
\<close>

definition new_SimulatorAdvanced :: "Vector3 list \<Rightarrow> SimulatorAdvanced" where
  "new_SimulatorAdvanced wm =
     animate
       \<lparr>droplets = [], isRunning = False, time = Finite 0, rainMode = False,
        rainInterval = False, gravity = Finite 9.8, mass_c = Finite 5, airResistance = Finite 0.02,
        dropletSize = Finite 8, freq = Finite 30, amp = Finite 0.5,
        history = [], isReplaying = False, replayFrame = Finite 0,
        MAX_HISTORY = 60 * 20, replayPool = None, waterMesh = wm\<rparr>"

section \<open>Replay sessions and sample states\<close>




text \<open>
  The live state of the simulation: every field of every droplet but its mesh, in the
  order of the collection, and the simulation time.
\<close>

definition live_state ::
  "SimulatorAdvanced \<Rightarrow> (Vector3 \<times> Vector3 \<times> jsnum \<times> jsnum \<times> bool \<times> jsnum) list \<times> jsnum" where
  "live_state s =
     (map (\<lambda>d. (position d, velocity d, mass d, radius d, isDead d, lastBounceTime d))
        (droplets s),
      time s)"


text \<open>A droplet of the default mass and size at height \<open>1\<close>, with vertical velocity \<open>v\<close>.\<close>

definition falling :: "real \<Rightarrow> Droplet3D" where
  "falling v =
     (new_Droplet3D (Finite 0) (Finite 1) (Finite 0) (Finite 5) (Finite 8))
       \<lparr>velocity := \<lparr>xc = Finite 0, yc = Finite v, zc = Finite 0\<rparr>\<rparr>"

text \<open>
  A droplet in double arithmetic: at height \<open>1\<close>, falling with \<open>velocity.y = -4\<close>, of the
  radius the constructor computes for the default size, the double written \<^verbatim>\<open>0.8\<close>.
\<close>

definition doubles :: Droplet3D where
  "doubles =
     \<lparr>position = \<lparr>xc = Finite 0, yc = Finite 1, zc = Finite 0\<rparr>,
      velocity = \<lparr>xc = Finite 0, yc = Finite (- 4), zc = Finite 0\<rparr>,
      mass = Finite 5,
      radius = binary64 0.8,
      mesh = createMesh \<lparr>xc = Finite 0, yc = Finite 1, zc = Finite 0\<rparr>,
      isDead = False,
      lastBounceTime = Finite 0\<rparr>"

text \<open>A droplet of the default mass and size, at rest at height \<open>-60\<close>.\<close>

definition sunk :: Droplet3D where
  "sunk = new_Droplet3D (Finite 0) (Finite (- 60)) (Finite 0) (Finite 5) (Finite 8)"

text \<open>A session: the page is loaded, Start is clicked, the frame loop runs twice.\<close>

definition two_frames :: SimulatorAdvanced where
  "two_frames = animate (animate (startBtn_click (new_SimulatorAdvanced [])))"


section \<open>Auxiliary facts\<close>

lemmas update_unfold =
  update_def Let_def lengthSq_def add_def multiplyScalar_def divideScalar_def
  handleSurfaceCollision_def minus_jsnum_def bounceThreshold_def

lemmas run_unfold =
  new_SimulatorAdvanced_def animate_def spawnDroplet_def new_Droplet3D_def createMesh_def


text \<open>\<^verbatim>\<open>NaN\<close> absorbs, and an update under a \<^verbatim>\<open>NaN\<close> gravity or mass yields it.\<close>

lemma NaN_absorbs:
  "a * NaN = NaN" "a + NaN = NaN" "NaN - a = NaN" "a - NaN = NaN" "- NaN * a = NaN"
  by (cases a; simp add: minus_jsnum_def)+

lemma update_NaN_force:
  assumes "- mass d * g = NaN"
  shows "yc (velocity (update d deltaTime g c sY sVy t)) = NaN"
  using assms
  by (simp add: update_def Let_def add_def multiplyScalar_def divideScalar_def NaN_absorbs)

text \<open>Rounding to a double.\<close>

lemma pow2_powr: "pow2 e = 2 powr of_int e"
  by (simp add: pow2_def powr_int)

lemma pow2_pos: "0 < pow2 e"
  by (simp add: pow2_powr)

lemma binary64_normal:
  assumes "pow2 k \<le> \<bar>r\<bar>" and "\<bar>r\<bar> < pow2 (k + 1)" and "- 1022 \<le> k"
  shows "binary64 r =
     (let u = pow2 (k - 52);
          q = u * of_int (round_half_even (r / u))
      in if 2 ^ 1024 \<le> \<bar>q\<bar> then (if 0 < r then PosInfinity else NegInfinity)
         else Finite q)"
proof -
  have pos: "0 < \<bar>r\<bar>" using pow2_pos [of k] assms(1) by linarith
  then have "\<lfloor>log 2 \<bar>r\<bar>\<rfloor> = k"
    using assms(1,2) by (simp add: floor_log_eq_powr_iff pow2_powr)
  with pos assms(3) show ?thesis
    by (simp add: binary64_def Let_def max_def)
qed

lemma round_to_Finite [simp]: "round_to Finite a = a"
  by (cases a) simp_all

lemma handleSurfaceCollision_fl_Finite:
  "handleSurfaceCollision_fl Finite d sY sVy t = handleSurfaceCollision d sY sVy t"
  by (simp add: handleSurfaceCollision_fl_def handleSurfaceCollision_def Let_def)

lemma round_half_even_nonneg: "0 \<le> x \<Longrightarrow> 0 \<le> round_half_even x"
  by (simp add: round_half_even_def Let_def)

lemma binary64_nonneg:
  assumes "0 \<le> r"
  shows "binary64 r = PosInfinity \<or> (\<exists>q\<ge>0. binary64 r = Finite q)"
proof (cases "r = 0")
  case True
  then show ?thesis by (simp add: binary64_def)
next
  case False
  with assms have r: "0 < r" by simp
  define u where "u = pow2 (max \<lfloor>log 2 \<bar>r\<bar>\<rfloor> (- 1022) - 52)"
  have "0 < u" by (simp add: u_def pow2_pos)
  with r have "0 \<le> r / u" by simp
  then have "0 \<le> round_half_even (r / u)" by (rule round_half_even_nonneg)
  with \<open>0 < u\<close> have "0 \<le> u * of_int (round_half_even (r / u))" by simp
  with r show ?thesis
    by (simp add: binary64_def Let_def u_def)
qed

lemma binary64_not_NaN: "binary64 r \<noteq> NaN"
  by (simp add: binary64_def Let_def)

lemma rounding_nonneg:
  assumes "rd = Finite \<or> rd = binary64" and "0 \<le> r"
  shows "Finite 0 \<le> rd r"
  using assms binary64_nonneg [of r] by auto

lemma rounding_not_NaN:
  assumes "rd = Finite \<or> rd = binary64"
  shows "rd r \<noteq> NaN"
  using assms binary64_not_NaN [of r] by auto

lemma binary64_08: "binary64 0.8 = Finite (3602879701896397 / 2 ^ 52)"
  by (subst binary64_normal [where k = "- 1"]) (simp_all add: round_half_even_def pow2_def Let_def)

lemma rounding_08:
  assumes "rd = Finite \<or> rd = binary64"
  shows "\<exists>c>0. rd 0.8 = Finite c"
  using assms
proof
  assume "rd = Finite"
  then show ?thesis by (intro exI [of _ "0.8"]) simp
next
  assume "rd = binary64"
  with binary64_08 show ?thesis by (intro exI [of _ "3602879701896397 / 2 ^ 52"]) simp
qed

lemma round_to_sum_nonneg:
  assumes "rd = Finite \<or> rd = binary64" and "Finite 0 \<le> a" and "Finite 0 \<le> b"
  shows "Finite 0 \<le> round_to rd (a + b)"
  using assms(2,3) rounding_nonneg [OF assms(1)]
  by (cases a; cases b) simp_all

lemma Math_max_0_nonneg: "x \<noteq> NaN \<Longrightarrow> Finite 0 \<le> Math_max (Finite 0) x"
  by (cases x) simp_all

lemma impact_fl_finite:
  assumes "round_to rd (a - b) < Finite 0" and "\<bar>round_to rd (a - b)\<bar> < Finite 25"
  shows "\<exists>v w. a = Finite v \<and> b = Finite w"
  using assms by (cases a; cases b) (simp_all add: minus_jsnum_def)

lemma binary64_values:
  "binary64 0.1 = Finite (3602879701896397 / 2 ^ 55)"
  "binary64 (- 4) = Finite (- 4)"
  "binary64 (3602879701896397 / 2 ^ 55 + 3602879701896397 / 2 ^ 52) =
     Finite (8106479329266893 / 2 ^ 53)"
  "binary64 (8106479329266893 / 2 ^ 53 - 3602879701896397 / 2 ^ 52) =
     Finite (900719925474099 / 2 ^ 53)"
proof -
  show "binary64 0.1 = Finite (3602879701896397 / 2 ^ 55)"
    by (subst binary64_normal [where k = "- 4"])
       (simp_all add: round_half_even_def pow2_def Let_def)
  show "binary64 (- 4) = Finite (- 4)"
    by (subst binary64_normal [where k = 2])
       (simp_all add: round_half_even_def pow2_def Let_def)
  show "binary64 (3602879701896397 / 2 ^ 55 + 3602879701896397 / 2 ^ 52) =
     Finite (8106479329266893 / 2 ^ 53)"
    by (subst binary64_normal [where k = "- 1"])
       (simp_all add: round_half_even_def pow2_def Let_def)
  show "binary64 (8106479329266893 / 2 ^ 53 - 3602879701896397 / 2 ^ 52) =
     Finite (900719925474099 / 2 ^ 53)"
    by (subst binary64_normal [where k = "- 4"])
       (simp_all add: round_half_even_def pow2_def Let_def)
qed

text \<open>The history under \<^verbatim>\<open>recordFrame\<close>.\<close>

lemma MAX_HISTORY_recordFrame [simp]: "MAX_HISTORY (recordFrame s) = MAX_HISTORY s"
  by (simp add: recordFrame_def Let_def)

lemma length_history_recordFrame:
  "length (history (recordFrame s)) =
     (if MAX_HISTORY s < length (history s) then length (history s)
      else Suc (length (history s)))"
  by (auto simp: recordFrame_def Let_def)

lemma MAX_HISTORY_funpow [simp]: "MAX_HISTORY ((recordFrame ^^ n) s) = MAX_HISTORY s"
  by (induction n) simp_all

lemma length_history_funpow:
  "length (history s) \<le> Suc (MAX_HISTORY s) \<Longrightarrow>
   length (history ((recordFrame ^^ n) s)) = min (length (history s) + n) (Suc (MAX_HISTORY s))"
proof (induction n)
  case 0
  then show ?case by simp
next
  case (Suc n)
  then show ?case
    by (simp add: length_history_recordFrame min_def)
qed

lemma new_SimulatorAdvanced_fields:
  "history (new_SimulatorAdvanced wm) = []"
  "MAX_HISTORY (new_SimulatorAdvanced wm) = 1200"
  "isReplaying (new_SimulatorAdvanced wm) = False"
  by (simp_all add: new_SimulatorAdvanced_def animate_def)

text \<open>Which numbers index a frame.\<close>

lemma frameAt_Some_iff:
  "frameAt h n \<noteq> None \<longleftrightarrow> (\<exists>i<length h. n = Finite (real i))"
proof (cases n)
  case (Finite r)
  show ?thesis
  proof
    assume "frameAt h n \<noteq> None"
    then have r: "of_int \<lfloor>r\<rfloor> = r" "0 \<le> r" "r < real (length h)"
      using Finite by (auto split: if_splits)
    then have "real (nat \<lfloor>r\<rfloor>) = r" by simp
    moreover have "nat \<lfloor>r\<rfloor> < length h" using r by linarith
    ultimately show "\<exists>i<length h. n = Finite (real i)" using Finite by metis
  next
    assume "\<exists>i<length h. n = Finite (real i)"
    then show "frameAt h n \<noteq> None" by auto
  qed
qed simp_all

text \<open>The replay button, by the mode it is clicked in.\<close>

lemma startReplay_enter:
  "\<not> isReplaying s \<Longrightarrow>
   startReplay s = s\<lparr>isReplaying := True, isRunning := False,
                     replayFrame := Finite (real (length (history s)) - 1)\<rparr>"
  by (simp add: startReplay_def Let_def)


text \<open>What \<^verbatim>\<open>renderReplay\<close> and the frame loop in Replay mode leave alone.\<close>

lemma renderReplay_keeps:
  "live_state (renderReplay s) = live_state s"
  "history (renderReplay s) = history s"
  "isReplaying (renderReplay s) = isReplaying s"
  "rainInterval (renderReplay s) = rainInterval s"
  "length (droplets (renderReplay s)) = length (droplets s)"
  by (simp_all add: renderReplay_def live_state_def updateWaterSurface_def Let_def comp_def
      split: option.split)


lemma isReplaying_animate: "isReplaying (animate s) = isReplaying s"
  by (simp add: animate_def Let_def renderReplay_keeps recordFrame_def updateWaterSurface_def)

lemma length_fst_live_state [simp]: "length (fst (live_state s)) = length (droplets s)"
  by (simp add: live_state_def)





text \<open>The sample sessions.\<close>

lemma two_frames_history: "length (history two_frames) = 2"
  by (simp add: two_frames_def run_unfold startBtn_click_def recordFrame_def
      updateWaterSurface_def Let_def)

lemma isReplaying_two_frames: "\<not> isReplaying two_frames"
  by (simp add: two_frames_def isReplaying_animate startBtn_click_def)





lemma wave_derivative:
  "((\<lambda>t. a * cos (0.2 * x) * cos (0.2 * z) * cos (f * 0.1 * t)) has_real_derivative
      - a * (f * 0.1) * cos (0.2 * x) * cos (0.2 * z) * sin (f * 0.1 * t)) (at t)"
  by (auto intro!: derivative_eq_intros)

section \<open>The history buffer\<close>

text \<open>
  C1 (the history never holds more than \<^verbatim>\<open>MAX_HISTORY\<close> frames): the code evicts only
  when the length already exceeds \<^verbatim>\<open>MAX_HISTORY\<close>, so a buffer that is exactly full grows
  by one. From the constructor's state, where \<^verbatim>\<open>MAX_HISTORY\<close> is \<open>1200\<close>, \<open>1201\<close> calls of
  \<^verbatim>\<open>recordFrame\<close> leave \<open>1201\<close> frames in the history.
\<close>

theorem recordFrame_overflows_MAX_HISTORY:
  "MAX_HISTORY ((recordFrame ^^ 1201) (new_SimulatorAdvanced wm)) = 1200 \<and>
   length (history ((recordFrame ^^ 1201) (new_SimulatorAdvanced wm))) = 1201"
  by (simp add: length_history_funpow new_SimulatorAdvanced_fields)

section \<open>Surface collisions\<close>



text \<open>
  C5 (splash): in a collision with \<open>rel = velocity.y - sVy < 0\<close>, if \<open>|rel| \<ge> 25\<close> or
  \<open>sVy \<le> -2\<close>, the droplet is marked dead and nothing else of it changes, its velocity
  included.
\<close>

theorem splash_dead:
  assumes "yc (velocity d) - sVy < Finite 0"
      and "Finite 25 \<le> \<bar>yc (velocity d) - sVy\<bar> \<or> sVy \<le> Finite (- 2)"
  shows "handleSurfaceCollision d sY sVy t = d\<lparr>isDead := True\<rparr>"
proof -
  have "\<not> (\<bar>yc (velocity d) - sVy\<bar> < Finite 25 \<and> Finite (- 2) < sVy)"
    using assms(2) by (cases "yc (velocity d)"; cases sVy) (auto simp: minus_jsnum_def)
  with assms(1) show ?thesis
    by (auto simp: handleSurfaceCollision_def bounceThreshold_def Let_def)
qed

text \<open>
  C5, the literal case: impact speed \<open>30\<close> on a rising surface (\<open>velocity.y = -28\<close>,
  \<open>sVy = 2\<close>) kills a live droplet and leaves its velocity as it was.
\<close>

theorem splash_dead_witness:
  "yc (velocity (falling (- 28))) - Finite 2 < Finite 0 \<and>
   \<bar>yc (velocity (falling (- 28))) - Finite 2\<bar> = Finite 30 \<and>
   \<not> isDead (falling (- 28)) \<and>
   isDead (handleSurfaceCollision (falling (- 28)) (Finite 0) (Finite 2) (Finite 0)) \<and>
   velocity (handleSurfaceCollision (falling (- 28)) (Finite 0) (Finite 2) (Finite 0))
     = velocity (falling (- 28))"
proof -
  have h1: "yc (velocity (falling (- 28))) - Finite 2 < Finite 0"
    by (simp add: falling_def new_Droplet3D_def minus_jsnum_def)
  have h2: "\<bar>yc (velocity (falling (- 28))) - Finite 2\<bar> = Finite 30"
    by (simp add: falling_def new_Droplet3D_def minus_jsnum_def)
  have h3: "Finite 25 \<le> \<bar>yc (velocity (falling (- 28))) - Finite 2\<bar> \<or> Finite 2 \<le> Finite (- 2)"
    by (simp add: h2)
  have "\<not> isDead (falling (- 28))"
    by (simp add: falling_def new_Droplet3D_def)
  then show ?thesis using h1 h2 splash_dead [OF h1 h3, of "Finite 0" "Finite 0"]
    by simp
qed

text \<open>
  C9 (after a bounce), as stated, fails in the arithmetic of the code: \<open>position.y\<close> is set
  to the double nearest to \<open>surfaceY + radius\<close>, and subtracting the radius from it need not
  give \<open>surfaceY\<close> back. For the radius \<^verbatim>\<open>0.8\<close> and a surface at the double \<^verbatim>\<open>0.1\<close>, a
  droplet falling with \<open>velocity.y = -4\<close> on the still surface bounces to
  \<open>position.y = 8106479329266893 / 2\<^sup>5\<^sup>3\<close> (printed \<^verbatim>\<open>0.9\<close>), and \<open>position.y - radius\<close> is
  \<open>900719925474099 / 2\<^sup>5\<^sup>3\<close> (printed \<^verbatim>\<open>0.09999999999999998\<close>), not the surface height.
\<close>

theorem bounce_position_rounds:
  "radius doubles = Finite (3602879701896397 / 2 ^ 52) \<and>
   binary64 0.1 = Finite (3602879701896397 / 2 ^ 55) \<and>
   round_to binary64 (yc (velocity doubles) - Finite 0) = Finite (- 4) \<and>
   yc (position (handleSurfaceCollision_fl binary64 doubles (binary64 0.1) (Finite 0) (Finite 0)))
     = Finite (8106479329266893 / 2 ^ 53) \<and>
   round_to binary64
     (yc (position (handleSurfaceCollision_fl binary64 doubles (binary64 0.1) (Finite 0) (Finite 0)))
      - radius (handleSurfaceCollision_fl binary64 doubles (binary64 0.1) (Finite 0) (Finite 0)))
     = Finite (900719925474099 / 2 ^ 53) \<and>
   round_to binary64
     (yc (position (handleSurfaceCollision_fl binary64 doubles (binary64 0.1) (Finite 0) (Finite 0)))
      - radius (handleSurfaceCollision_fl binary64 doubles (binary64 0.1) (Finite 0) (Finite 0)))
     \<noteq> binary64 0.1"
proof -
  have r: "radius doubles = Finite (3602879701896397 / 2 ^ 52)"
    using binary64_08 by (simp add: doubles_def)
  have rel: "round_to binary64 (yc (velocity doubles) - Finite 0) = Finite (- 4)"
    using binary64_values(2) by (simp add: doubles_def minus_jsnum_def)
  have bounced:
    "handleSurfaceCollision_fl binary64 doubles (binary64 0.1) (Finite 0) (Finite 0) =
       doubles\<lparr>velocity := (velocity doubles)\<lparr>yc :=
                round_to binary64
                  (round_to binary64 (\<bar>yc (velocity doubles)\<bar> * binary64 0.8)
                   + Math_max (Finite 0) (round_to binary64 (Finite 0 * Finite 0.5)))\<rparr>,
             position := (position doubles)\<lparr>yc :=
                round_to binary64 (binary64 0.1 + radius doubles)\<rparr>\<rparr>"
    unfolding handleSurfaceCollision_fl_def Let_def rel
    by (simp add: bounceThreshold_def)
  have p: "round_to binary64 (binary64 0.1 + radius doubles) = Finite (8106479329266893 / 2 ^ 53)"
    unfolding r binary64_values(1)
    by (simp only: plus_jsnum.simps round_to.simps binary64_values(3))
  have d: "round_to binary64
             (Finite (8106479329266893 / 2 ^ 53) - Finite (3602879701896397 / 2 ^ 52)) =
           Finite (900719925474099 / 2 ^ 53)"
    unfolding minus_jsnum_def
    using binary64_values(4)
    by (simp only: uminus_jsnum.simps plus_jsnum.simps round_to.simps
        minus_real_def [symmetric] uminus_add_conv_diff add_uminus_conv_diff)
  have pos: "yc (position
      (handleSurfaceCollision_fl binary64 doubles (binary64 0.1) (Finite 0) (Finite 0))) =
      Finite (8106479329266893 / 2 ^ 53)"
    unfolding bounced by (simp add: p)
  have rad: "radius
      (handleSurfaceCollision_fl binary64 doubles (binary64 0.1) (Finite 0) (Finite 0)) =
      Finite (3602879701896397 / 2 ^ 52)"
    unfolding bounced by (simp add: r)
  show ?thesis
    unfolding pos rad d
    using r rel binary64_values(1) by simp
qed


text \<open>
  C9, amended: after a bounce, in exact and in double arithmetic alike, the vertical velocity
  is the sum, as the code computes it, of \<open>|velocity.y| * 0.8\<close> and \<open>max(0, sVy * 0.5)\<close> and
  is not negative; \<open>position.y\<close> is \<open>surfaceY + radius\<close> as the code computes it, and
  nothing else of the droplet changes; and \<open>position.y - radius\<close> is the surface height in exact
  arithmetic, for a finite radius and surface height.
\<close>

theorem bounce_leaves_upward_on_surface:
  assumes "rd = Finite \<or> rd = binary64"
      and "round_to rd (yc (velocity d) - sVy) < Finite 0"
      and "\<bar>round_to rd (yc (velocity d) - sVy)\<bar> < Finite 25"
      and "Finite (- 2) < sVy"
  shows "handleSurfaceCollision_fl rd d sY sVy t =
           d\<lparr>velocity := (velocity d)\<lparr>yc :=
                 round_to rd
                   (round_to rd (\<bar>yc (velocity d)\<bar> * rd 0.8)
                    + Math_max (Finite 0) (round_to rd (sVy * Finite 0.5)))\<rparr>,
             position := (position d)\<lparr>yc := round_to rd (sY + radius d)\<rparr>\<rparr> \<and>
         Finite 0 \<le> yc (velocity (handleSurfaceCollision_fl rd d sY sVy t)) \<and>
         (rd = Finite \<and> radius d = Finite r \<and> sY = Finite h \<longrightarrow>
            yc (position (handleSurfaceCollision_fl rd d sY sVy t))
              - radius (handleSurfaceCollision_fl rd d sY sVy t) = sY)"
proof -
  have eq: "handleSurfaceCollision_fl rd d sY sVy t =
      d\<lparr>velocity := (velocity d)\<lparr>yc :=
                round_to rd
                  (round_to rd (\<bar>yc (velocity d)\<bar> * rd 0.8)
                   + Math_max (Finite 0) (round_to rd (sVy * Finite 0.5)))\<rparr>,
             position := (position d)\<lparr>yc := round_to rd (sY + radius d)\<rparr>\<rparr>"
    using assms(2-4) by (simp add: handleSurfaceCollision_fl_def bounceThreshold_def Let_def)
  obtain v w where vw: "yc (velocity d) = Finite v" "sVy = Finite w"
    using impact_fl_finite [OF assms(2,3)] by blast
  obtain c where c: "0 < c" "rd 0.8 = Finite c"
    using rounding_08 [OF assms(1)] by blast
  have a: "Finite 0 \<le> round_to rd (\<bar>yc (velocity d)\<bar> * rd 0.8)"
    using rounding_nonneg [OF assms(1), of "\<bar>v\<bar> * c"] c by (simp add: vw)
  have b: "Finite 0 \<le> Math_max (Finite 0) (round_to rd (sVy * Finite 0.5))"
    by (rule Math_max_0_nonneg) (simp add: vw rounding_not_NaN [OF assms(1)])
  have up: "Finite 0 \<le> round_to rd
             (round_to rd (\<bar>yc (velocity d)\<bar> * rd 0.8)
              + Math_max (Finite 0) (round_to rd (sVy * Finite 0.5)))"
    by (rule round_to_sum_nonneg [OF assms(1) a b])
  have exact: "yc (position (handleSurfaceCollision_fl rd d sY sVy t))
              - radius (handleSurfaceCollision_fl rd d sY sVy t) = sY"
    if "rd = Finite" "radius d = Finite r" "sY = Finite h"
    using that unfolding eq by (simp add: minus_jsnum_def)
  have "Finite 0 \<le> yc (velocity (handleSurfaceCollision_fl rd d sY sVy t))"
    unfolding eq using up by simp
  with eq exact show ?thesis by blast
qed


text \<open>
  C9, amended, at two concrete bounces: in exact arithmetic, \<open>velocity.y = -4\<close> on a
  surface at height \<open>0.25\<close> that sinks with \<open>sVy = -1\<close>; in double arithmetic, the droplet
  and the surface of the case above.
\<close>

theorem bounce_leaves_upward_on_surface_witness:
  "round_to Finite (yc (velocity (falling (- 4))) - Finite (- 1)) < Finite 0 \<and>
   \<bar>round_to Finite (yc (velocity (falling (- 4))) - Finite (- 1))\<bar> < Finite 25 \<and>
   Finite (- 2) < Finite (- 1) \<and>
   radius (falling (- 4)) = Finite 0.8 \<and>
   Finite 0 \<le> yc (velocity
     (handleSurfaceCollision_fl Finite (falling (- 4)) (Finite 0.25) (Finite (- 1)) (Finite 0))) \<and>
   yc (position
     (handleSurfaceCollision_fl Finite (falling (- 4)) (Finite 0.25) (Finite (- 1)) (Finite 0)))
     - radius
     (handleSurfaceCollision_fl Finite (falling (- 4)) (Finite 0.25) (Finite (- 1)) (Finite 0))
     = Finite 0.25 \<and>
   round_to binary64 (yc (velocity doubles) - Finite 0) < Finite 0 \<and>
   \<bar>round_to binary64 (yc (velocity doubles) - Finite 0)\<bar> < Finite 25 \<and>
   Finite (- 2) < Finite 0 \<and>
   Finite 0 \<le> yc (velocity
     (handleSurfaceCollision_fl binary64 doubles (binary64 0.1) (Finite 0) (Finite 0)))"
proof -
  have f1: "round_to Finite (yc (velocity (falling (- 4))) - Finite (- 1)) < Finite 0"
    by (simp add: falling_def new_Droplet3D_def minus_jsnum_def)
  have f2: "\<bar>round_to Finite (yc (velocity (falling (- 4))) - Finite (- 1))\<bar> < Finite 25"
    by (simp add: falling_def new_Droplet3D_def minus_jsnum_def)
  have f3: "Finite (- 2) < Finite (- 1)" by simp
  have f4: "radius (falling (- 4)) = Finite 0.8"
    by (simp add: falling_def new_Droplet3D_def)
  have rel: "round_to binary64 (yc (velocity doubles) - Finite 0) = Finite (- 4)"
    using binary64_values(2) by (simp add: doubles_def minus_jsnum_def)
  have b1: "round_to binary64 (yc (velocity doubles) - Finite 0) < Finite 0"
    by (simp add: rel)
  have b2: "\<bar>round_to binary64 (yc (velocity doubles) - Finite 0)\<bar> < Finite 25"
    by (simp add: rel)
  have b3: "Finite (- 2) < Finite 0" by simp
  have a0: "Finite = Finite \<or> Finite = binary64" by simp
  have b0: "binary64 = Finite \<or> binary64 = binary64" by simp
  have A: "Finite 0 \<le> yc (velocity
      (handleSurfaceCollision_fl Finite (falling (- 4)) (Finite 0.25) (Finite (- 1)) (Finite 0))) \<and>
    yc (position
      (handleSurfaceCollision_fl Finite (falling (- 4)) (Finite 0.25) (Finite (- 1)) (Finite 0)))
      - radius
      (handleSurfaceCollision_fl Finite (falling (- 4)) (Finite 0.25) (Finite (- 1)) (Finite 0))
      = Finite 0.25"
    using bounce_leaves_upward_on_surface
         [where rd = Finite and d = "falling (- 4)" and sVy = "Finite (- 1)"
            and sY = "Finite 0.25" and t = "Finite 0" and r = "0.8" and h = "0.25",
          OF a0 f1 f2 f3] f4
    by blast
  have B: "Finite 0 \<le> yc (velocity
      (handleSurfaceCollision_fl binary64 doubles (binary64 0.1) (Finite 0) (Finite 0)))"
    using bounce_leaves_upward_on_surface
         [where rd = binary64 and d = doubles and sVy = "Finite 0"
            and sY = "binary64 0.1" and t = "Finite 0", OF b0 b1 b2 b3]
    by blast
  show ?thesis
    using A B f1 f2 f3 f4 b1 b2 b3 by blast
qed

section \<open>The floor\<close>

text \<open>
  C8 (floor kill), as stated, fails: a live droplet at rest at \<open>position.y = -60\<close>, updated
  over a still surface at height \<open>0\<close>, is below the surface, so the update handles a
  collision; the impact is soft, the droplet bounces and is put on the surface at
  \<open>position.y = 0.8\<close>; the floor test, which comes last, then finds it above \<open>-50\<close> and
  the droplet stays alive.
\<close>

theorem floor_kill_counterexample:
  "yc (position sunk) < Finite (- 50) \<and> \<not> isDead sunk \<and>
   \<not> isDead (update sunk (Finite 0.016) (Finite 9.8) (Finite 0.02)
               (Finite 0) (Finite 0) (Finite 0)) \<and>
   yc (position (update sunk (Finite 0.016) (Finite 9.8) (Finite 0.02)
                   (Finite 0) (Finite 0) (Finite 0))) = Finite 0.8"
  by (simp add: sunk_def new_Droplet3D_def createMesh_def update_unfold)

text \<open>
  C8, amended: a droplet whose \<open>position.y\<close> is below \<open>-50\<close> at the end of an update,
  that is after the integration step and the collision handling of that update, is dead
  after it, whatever the collision handling decided.
\<close>

theorem floor_kill_after_update:
  assumes "yc (position (update d deltaTime g c sY sVy t)) < Finite (- 50)"
  shows "isDead (update d deltaTime g c sY sVy t)"
  using assms unfolding update_def Let_def
  by (simp split: if_splits)

text \<open>
  C8, amended, at a concrete update: the droplet at \<open>-60\<close> over a surface at height
  \<open>-100\<close> meets no surface, ends the update below \<open>-50\<close> and is dead.
\<close>

theorem floor_kill_after_update_witness:
  "yc (position (update sunk (Finite 0.016) (Finite 9.8) (Finite 0.02)
                   (Finite (- 100)) (Finite 0) (Finite 0))) < Finite (- 50) \<and>
   isDead (update sunk (Finite 0.016) (Finite 9.8) (Finite 0.02)
             (Finite (- 100)) (Finite 0) (Finite 0))"
proof -
  have h: "yc (position (update sunk (Finite 0.016) (Finite 9.8) (Finite 0.02)
                   (Finite (- 100)) (Finite 0) (Finite 0))) < Finite (- 50)"
    by (simp add: sunk_def new_Droplet3D_def createMesh_def update_unfold)
  from h floor_kill_after_update [OF h] show ?thesis by (rule conjI)
qed

section \<open>The wave field\<close>

text \<open>
  C7 (wave field): for a finite frequency \<open>f\<close> and amplitude \<open>a\<close> and finite \<open>x\<close>, \<open>z\<close>,
  \<open>t\<close>, the height is \<open>a cos(k x) cos(k z) cos(\<omega> t)\<close> and the vertical velocity is
  \<open>- a \<omega> cos(k x) cos(k z) sin(\<omega> t)\<close>, with \<open>k = 0.2\<close> and \<open>\<omega> = f * 0.1\<close> in both, and
  the second is the derivative of the first with respect to \<open>t\<close>. Both are functions of the
  configuration and their arguments only.
\<close>

theorem wave_velocity_is_time_derivative:
  "getWaveHeight (s\<lparr>freq := Finite f, amp := Finite a\<rparr>) (Finite x) (Finite z) (Finite t) =
     Finite (a * cos (0.2 * x) * cos (0.2 * z) * cos (f * 0.1 * t)) \<and>
   getSurfaceVelY (s\<lparr>freq := Finite f, amp := Finite a\<rparr>) (Finite x) (Finite z) (Finite t) =
     Finite (- a * (f * 0.1) * cos (0.2 * x) * cos (0.2 * z) * sin (f * 0.1 * t)) \<and>
   ((\<lambda>t. a * cos (0.2 * x) * cos (0.2 * z) * cos (f * 0.1 * t)) has_real_derivative
      - a * (f * 0.1) * cos (0.2 * x) * cos (0.2 * z) * sin (f * 0.1 * t)) (at t)"
  using wave_derivative [of a x z f t]
  by (simp add: getWaveHeight_def getSurfaceVelY_def Let_def)

section \<open>Configuration\<close>

text \<open>
  C3 (rejecting bad configuration), as stated, fails: on the constructor's state, where the
  mass is \<open>5\<close>, the mass slider's listener stores \<^verbatim>\<open>NaN\<close> and stores \<open>-1\<close>, the gravity
  slider's listener stores infinity; a droplet spawned with the mass \<^verbatim>\<open>NaN\<close> has the
  velocity \<^verbatim>\<open>(NaN, NaN, NaN)\<close> after one update.
\<close>

theorem bindSlider_accepts_NaN:
  "mass_c (new_SimulatorAdvanced []) = Finite 5 \<and>
   mass_c (bindSlider Mass NaN (new_SimulatorAdvanced [])) = NaN \<and>
   mass_c (bindSlider Mass (Finite (- 1)) (new_SimulatorAdvanced [])) = Finite (- 1) \<and>
   gravity (bindSlider Gravity PosInfinity (new_SimulatorAdvanced [])) = PosInfinity \<and>
   map (\<lambda>d. velocity (update d dt (Finite 9.8) (Finite 0.02) (Finite 0) (Finite 0) (Finite 0)))
     (droplets (spawnDroplet (Finite 0.5) (Finite 0.5)
        (bindSlider Mass NaN (new_SimulatorAdvanced [])))) =
     [\<lparr>xc = NaN, yc = NaN, zc = NaN\<rparr>]"
  by (simp add: run_unfold update_unfold dt_def)

text \<open>
  C3, amended: a slider's listener stores the parsed value in its target field, whatever the
  value is; nothing is rejected. The stored value reaches the droplet integrator: the frame
  loop hands the stored gravity and air resistance to the update of every droplet,
  \<^verbatim>\<open>spawnDroplet\<close> gives the stored mass to the new droplet, and the surface under a droplet
  is computed from the stored frequency and amplitude. A gravity \<^verbatim>\<open>NaN\<close>, or a droplet of
  mass \<^verbatim>\<open>NaN\<close>, makes the vertical velocity \<^verbatim>\<open>NaN\<close> in one update.
\<close>

theorem bindSlider_stores_any_value:
  "gravity (bindSlider Gravity v s) = v \<and>
   mass_c (bindSlider Mass v s) = v \<and>
   airResistance (bindSlider AirResistance v s) = v \<and>
   freq (bindSlider Freq v s) = v \<and>
   amp (bindSlider Amp v s) = v \<and>
   step_droplet (bindSlider Gravity v s) d =
     update (d\<lparr>mesh := (mesh d)\<lparr>visible := True\<rparr>\<rparr>) dt v (airResistance s)
       (getWaveHeight s (xc (position d)) (zc (position d)) (time s))
       (getSurfaceVelY s (xc (position d)) (zc (position d)) (time s)) (time s) \<and>
   step_droplet (bindSlider AirResistance v s) d =
     update (d\<lparr>mesh := (mesh d)\<lparr>visible := True\<rparr>\<rparr>) dt (gravity s) v
       (getWaveHeight s (xc (position d)) (zc (position d)) (time s))
       (getSurfaceVelY s (xc (position d)) (zc (position d)) (time s)) (time s) \<and>
   droplets (spawnDroplet rx rz (bindSlider Mass v s)) =
     droplets s @ [new_Droplet3D ((rx - Finite 0.5) * Finite 40) (Finite 40)
                     ((rz - Finite 0.5) * Finite 40) v (dropletSize s)] \<and>
   mass (new_Droplet3D x y z v sz) = v \<and>
   getWaveHeight (bindSlider Amp v s) x z t =
     v * Math_cos (Finite 0.2 * x) * Math_cos (Finite 0.2 * z)
       * Math_cos (freq s * Finite 0.1 * t) \<and>
   getSurfaceVelY (bindSlider Freq v s) x z t =
     (- amp s) * (v * Finite 0.1) * Math_cos (Finite 0.2 * x) * Math_cos (Finite 0.2 * z)
       * Math_sin (v * Finite 0.1 * t) \<and>
   yc (velocity (step_droplet (bindSlider Gravity NaN s) d)) = NaN \<and>
   yc (velocity (update (new_Droplet3D x y z NaN sz) deltaTime g c sY sVy t)) = NaN"
proof -
  have grav: "yc (velocity (step_droplet (bindSlider Gravity NaN s) d)) = NaN"
    by (simp add: step_droplet_def Let_def update_NaN_force NaN_absorbs)
  have m: "yc (velocity (update (new_Droplet3D x y z NaN sz) deltaTime g c sY sVy t)) = NaN"
    by (rule update_NaN_force) (simp add: new_Droplet3D_def)
  show ?thesis
    using grav m
    by (simp add: step_droplet_def spawnDroplet_def getWaveHeight_def getSurfaceVelY_def
        Let_def new_Droplet3D_def)
qed

section \<open>Replay\<close>

text \<open>
  C2 (clamped scrub), as stated, fails: in Replay mode over a history of two frames, the
  slider's listener sets the cursor to \<open>5\<close>, to \<open>-3\<close> or to \<^verbatim>\<open>NaN\<close> as requested, and at
  \<open>5\<close> the cursor names no frame.
\<close>

theorem scrub_not_clamped:
  "isReplaying (startReplay two_frames) \<and>
   length (history (startReplay two_frames)) = 2 \<and>
   replayFrame (replaySlider_input (Finite 5) (startReplay two_frames)) = Finite 5 \<and>
   frameAt (history (replaySlider_input (Finite 5) (startReplay two_frames)))
     (replayFrame (replaySlider_input (Finite 5) (startReplay two_frames))) = None \<and>
   replayFrame (replaySlider_input (Finite (- 3)) (startReplay two_frames)) = Finite (- 3) \<and>
   replayFrame (replaySlider_input NaN (startReplay two_frames)) = NaN"
  by (simp add: startReplay_enter isReplaying_two_frames two_frames_history
      replaySlider_input_def)

text \<open>
  C2, amended: in Replay mode a scrub sets the cursor to the requested value as it is and
  changes nothing else; the cursor then names a frame of the history exactly when the
  requested value is an integer from \<open>0\<close> to the history's length minus one. The listener
  has no failing path.
\<close>

theorem replaySlider_input_sets_cursor:
  assumes "isReplaying s"
  shows "replaySlider_input v s = s\<lparr>replayFrame := v\<rparr> \<and>
         (frameAt (history (replaySlider_input v s)) (replayFrame (replaySlider_input v s))
            \<noteq> None
          \<longleftrightarrow> (\<exists>i<length (history s). v = Finite (real i)))"
  using assms frameAt_Some_iff [of "history s" v]
  by (simp add: replaySlider_input_def)

text \<open>
  C2, amended, at a concrete scrub: over the two frames, a scrub to \<open>0\<close> sets the cursor to
  \<open>0\<close>, which names the oldest frame.
\<close>

theorem replaySlider_input_sets_cursor_witness:
  "isReplaying (startReplay two_frames) \<and>
   replayFrame (replaySlider_input (Finite 0) (startReplay two_frames)) = Finite 0 \<and>
   frameAt (history (replaySlider_input (Finite 0) (startReplay two_frames)))
     (replayFrame (replaySlider_input (Finite 0) (startReplay two_frames))) =
     Some (history two_frames ! 0)"
proof -
  have h: "isReplaying (startReplay two_frames)"
    by (simp add: startReplay_enter isReplaying_two_frames)
  have "replaySlider_input (Finite 0) (startReplay two_frames) =
          (startReplay two_frames)\<lparr>replayFrame := Finite 0\<rparr>"
    using replaySlider_input_sets_cursor [OF h, of "Finite 0"] by blast
  then show ?thesis using h
    by (simp add: startReplay_enter isReplaying_two_frames two_frames_history)
qed

text \<open>
  C10 (cursor out of bounds): when the cursor is no index of the history, \<^verbatim>\<open>renderReplay\<close>
  returns the state as it was: history, droplets, time and everything else.
\<close>

theorem renderReplay_out_of_range:
  assumes "\<not> (\<exists>i<length (history s). replayFrame s = Finite (real i))"
  shows "renderReplay s = s"
proof -
  have "frameAt (history s) (replayFrame s) = None"
    using assms frameAt_Some_iff [of "history s" "replayFrame s"] by blast
  then show ?thesis by (simp add: renderReplay_def)
qed

text \<open>
  C10 at a concrete state: Replay entered on the empty history has the cursor \<open>-1\<close>, and
  rendering changes nothing.
\<close>

theorem renderReplay_out_of_range_witness:
  "isReplaying (startReplay (new_SimulatorAdvanced [])) \<and>
   history (startReplay (new_SimulatorAdvanced [])) = [] \<and>
   replayFrame (startReplay (new_SimulatorAdvanced [])) = Finite (- 1) \<and>
   renderReplay (startReplay (new_SimulatorAdvanced [])) = startReplay (new_SimulatorAdvanced [])"
proof -
  have enter: "startReplay (new_SimulatorAdvanced []) =
      (new_SimulatorAdvanced [])\<lparr>isReplaying := True, isRunning := False,
         replayFrame := Finite (real (length (history (new_SimulatorAdvanced []))) - 1)\<rparr>"
    by (rule startReplay_enter) (simp add: new_SimulatorAdvanced_fields)
  have h: "history (startReplay (new_SimulatorAdvanced [])) = []"
    by (simp add: enter new_SimulatorAdvanced_fields)
  have "\<not> (\<exists>i<length (history (startReplay (new_SimulatorAdvanced []))).
           replayFrame (startReplay (new_SimulatorAdvanced [])) = Finite (real i))"
    by (simp add: h)
  from renderReplay_out_of_range [OF this] h show ?thesis
    by (simp add: enter new_SimulatorAdvanced_fields)
qed




end
